theory Spec2Isabelle
  imports Main
begin

section \<open>JavaScript values as the handlers see them\<close>

text \<open>
  A request body is JSON. Numbers are kept abstract (type \<open>'n\<close>): the handlers only
  ask of a number whether it is falsy and what its string conversion is, and both
  questions are answered by the runtime, which is a parameter of the model.
  An object is the list of its own properties; \<open>undefined\<close> is \<open>None\<close> of an
  optional value.
\<close>

datatype 'n json =
    JNull
  | JBool bool
  | JNum 'n
  | JStr string
  | JArr "'n json list"
  | JObj "(string \<times> 'n json) list"

datatype js_error = TypeError | SyntaxError | StreamError | Rejected string

text \<open>
  The part of the runtime the handlers call and the repository does not define:
  truthiness and string conversion of numbers, \<open>Buffer.toString('utf8')\<close> and
  \<open>JSON.parse\<close> (which throws a SyntaxError on malformed text).
\<close>

record 'n runtime =
  num_falsy :: "'n \<Rightarrow> bool"
  num_toString :: "'n \<Rightarrow> string"
  buffer_toString :: "string \<Rightarrow> string"
  JSON_parse :: "string \<Rightarrow> js_error + 'n json"

text \<open>
  \<open>v?.k\<close> for the keys the handlers read (\<open>payer\<close>, \<open>email\<close>), which no
  prototype defines: \<open>undefined\<close> and \<open>null\<close> short-circuit to \<open>undefined\<close>, an object
  yields its own property, every other value has no such property.
\<close>

fun opt_chain :: "'n json option \<Rightarrow> string \<Rightarrow> 'n json option" where
  "opt_chain None k = None"
| "opt_chain (Some JNull) k = None"
| "opt_chain (Some (JObj props)) k = map_of props k"
| "opt_chain (Some v) k = None"

text \<open>ToBoolean, as \<open>!email\<close> and \<open>email || 'unknown'\<close> apply it.\<close>

fun truthy :: "'n runtime \<Rightarrow> 'n json option \<Rightarrow> bool" where
  "truthy rt None = False"
| "truthy rt (Some JNull) = False"
| "truthy rt (Some (JBool b)) = b"
| "truthy rt (Some (JNum n)) = (\<not> num_falsy rt n)"
| "truthy rt (Some (JStr s)) = (s \<noteq> [])"
| "truthy rt (Some (JArr xs)) = True"
| "truthy rt (Some (JObj props)) = True"

text \<open>
  ToString, as a template literal applies it. An array is joined with commas, a
  \<open>null\<close> element giving the empty string. A plain object inherits
  \<open>Object.prototype.toString\<close> unless it has an own property \<open>toString\<close>; a JSON value
  is never callable, so with such a property the conversion falls through to
  \<open>valueOf\<close>, gets no primitive, and throws a TypeError.
\<close>

fun toString :: "'n runtime \<Rightarrow> 'n json \<Rightarrow> js_error + string"
  and join :: "'n runtime \<Rightarrow> 'n json list \<Rightarrow> js_error + string" where
  "toString rt JNull = Inr ''null''"
| "toString rt (JBool b) = Inr (if b then ''true'' else ''false'')"
| "toString rt (JNum n) = Inr (num_toString rt n)"
| "toString rt (JStr s) = Inr s"
| "toString rt (JArr xs) = join rt xs"
| "toString rt (JObj props) =
     (if ''toString'' \<in> set (map fst props) then Inl TypeError
      else Inr ''[object Object]'')"
| "join rt [] = Inr []"
| "join rt (x # xs) =
     (case (if x = JNull then Inr [] else toString rt x) of
        Inl e \<Rightarrow> Inl e
      | Inr s \<Rightarrow>
          (case join rt xs of
             Inl e \<Rightarrow> Inl e
           | Inr r \<Rightarrow> Inr (if xs = [] then s else s @ '','' @ r)))"

text \<open>\<open>`${v}`\<close> where \<open>v\<close> may be \<open>undefined\<close>.\<close>

definition template :: "'n runtime \<Rightarrow> 'n json option \<Rightarrow> js_error + string" where
  "template rt v = (case v of None \<Rightarrow> Inr ''undefined'' | Some j \<Rightarrow> toString rt j)"

section \<open>Request and response\<close>

text \<open>
  The request as an async iterable: chunks, then the end of the stream or an error
  that the iteration throws.
\<close>

datatype body_stream = End | Chunk string body_stream | Fail

record 'n request =
  req_method :: string
  req_body :: "'n json option"
  req_stream :: body_stream

text \<open>The response object: only what the handlers set.\<close>

record response =
  res_statusCode :: nat
  res_headers :: "string \<rightharpoonup> string list"
  res_sent :: "string option"

definition status :: "nat \<Rightarrow> response \<Rightarrow> response" where
  "status c res = res\<lparr>res_statusCode := c\<rparr>"

definition send :: "string \<Rightarrow> response \<Rightarrow> response" where
  "send text res = res\<lparr>res_sent := Some text\<rparr>"

definition end_with :: "string \<Rightarrow> response \<Rightarrow> response" where
  "end_with text res = res\<lparr>res_sent := Some text\<rparr>"

definition setHeader :: "string \<Rightarrow> string list \<Rightarrow> response \<Rightarrow> response" where
  "setHeader name val res = res\<lparr>res_headers := (res_headers res)(name \<mapsto> val)\<rparr>"

section \<open>The simpler webhook handler (src/unnamed/part_002)\<close>

text \<open>
  The handler is async: \<open>Inl\<close> is a rejected promise (an exception escaped),
  \<open>Inr\<close> the response as the handler left it.
\<close>

definition webhook_handler ::
  "'n runtime \<Rightarrow> 'n request \<Rightarrow> response \<Rightarrow> js_error + response" where
  "webhook_handler rt req res =
     (if req_method req = ''GET'' then Inr (send ''GET is working'' (status 200 res))
      else if req_method req = ''POST'' then
        (let body = req_body req;
             payer_email = opt_chain (opt_chain body ''payer'') ''email'';
             email = (if truthy rt payer_email then payer_email else Some (JStr ''unknown''))
         in case template rt email of
              Inl e \<Rightarrow> Inl e
            | Inr s \<Rightarrow> Inr (send (''Webhook received for '' @ s) (status 200 res)))
      else
        Inr (end_with (''Method '' @ req_method req @ '' Not Allowed'')
               (status 405 (setHeader ''Allow'' [''POST'', ''GET''] res))))"

section \<open>The morning webhook handler (src/api/morningWebhook.js)\<close>

text \<open>
  The SDK client is imported from a package and built when the module is loaded; its
  \<open>entities.User\<close> handle is a parameter here. A call may reject, and may change the backend, whose state \<open>'s\<close>
  is threaded through. An entity has an \<open>id\<close> (a string) and open-ended further fields.
\<close>

record 'n entity =
  entity_id :: string
  entity_fields :: "(string \<times> 'n json) list"

record ('n, 's) user_handle =
  filter_op :: "(string \<times> 'n json) list \<Rightarrow> 's \<Rightarrow> (js_error + 'n entity list) \<times> 's"
  update_op :: "string \<Rightarrow> (string \<times> 'n json) list \<Rightarrow> 's \<Rightarrow> (js_error + 'n entity) \<times> 's"

datatype 'n call =
    FilterCall "(string \<times> 'n json) list"
  | UpdateCall string "(string \<times> 'n json) list"

text \<open>The \<open>for await\<close> loop pushing every chunk onto \<open>buffers\<close>.\<close>

fun read_chunks :: "body_stream \<Rightarrow> string list \<Rightarrow> js_error + string list" where
  "read_chunks End buffers = Inr buffers"
| "read_chunks (Chunk c rest) buffers = read_chunks rest (buffers @ [c])"
| "read_chunks Fail buffers = Inl StreamError"

text \<open>
  The body of the \<open>try\<close> block. The result is what the block returns or throws,
  the backend calls it issued, in order, and the backend state after them.
\<close>

definition post_try ::
  "'n runtime \<Rightarrow> ('n, 's) user_handle \<Rightarrow> 'n request \<Rightarrow> response \<Rightarrow> 's \<Rightarrow>
   (js_error + response) \<times> 'n call list \<times> 's" where
  "post_try rt User req res s =
     (case read_chunks (req_stream req) [] of
        Inl e \<Rightarrow> (Inl e, [], s)
      | Inr buffers \<Rightarrow>
          (let rawBody = buffer_toString rt (concat buffers) in
           case JSON_parse rt rawBody of
             Inl e \<Rightarrow> (Inl e, [], s)
           | Inr payload \<Rightarrow>
               (let email = opt_chain (opt_chain (Some payload) ''payer'') ''email'' in
                case email of
                  None \<Rightarrow> (Inr (send ''Email not found in payload'' (status 400 res)), [], s)
                | Some e \<Rightarrow>
                    if \<not> truthy rt email
                    then (Inr (send ''Email not found in payload'' (status 400 res)), [], s)
                    else
                      (let query = [(''email'', e)];
                           (found, s1) = filter_op User query s
                       in case found of
                            Inl err \<Rightarrow> (Inl err, [FilterCall query], s1)
                          | Inr [] \<Rightarrow>
                              (Inr (send ''User not found'' (status 404 res)),
                               [FilterCall query], s1)
                          | Inr (user # others) \<Rightarrow>
                              (let data = [(''subscription_type'', JStr ''premium'')];
                                   (updated, s2) = update_op User (entity_id user) data s1;
                                   issued = [FilterCall query, UpdateCall (entity_id user) data]
                               in case updated of
                                    Inl err \<Rightarrow> (Inl err, issued, s2)
                                  | Inr u \<Rightarrow>
                                      (case template rt (map_of (entity_fields user) ''full_name'') of
                                         Inl err \<Rightarrow> (Inl err, issued, s2)
                                       | Inr name \<Rightarrow>
                                           (Inr (send (''User '' @ name @ '' updated to premium'')
                                                   (status 200 res)),
                                            issued, s2)))))))"

definition morning_handler ::
  "'n runtime \<Rightarrow> ('n, 's) user_handle \<Rightarrow> 'n request \<Rightarrow> response \<Rightarrow> 's \<Rightarrow>
   response \<times> 'n call list \<times> 's" where
  "morning_handler rt User req res s =
     (if req_method req = ''GET'' then (send ''GET is working'' (status 200 res), [], s)
      else if req_method req = ''POST'' then
        (case post_try rt User req res s of
           (Inl err, issued, s') \<Rightarrow>
             (send ''Internal server error'' (status 500 res), issued, s')
         | (Inr res', issued, s') \<Rightarrow> (res', issued, s'))
      else
        (send (''Method '' @ req_method req @ '' Not Allowed'')
           (status 405 (setHeader ''Allow'' [''POST'', ''GET''] res)), [], s))"

section \<open>The declared types (src/unnamed/part_001)\<close>

text \<open>
  The TypeScript declarations as data: an interface is the list of its members, in
  the order of the source, and its index signature \<open>[key: string]: T\<close> if it has one.
  A member is a property (name, whether it is marked optional with \<open>?\<close>, type) or a
  method (name, parameters, return type).
\<close>

datatype ts_type =
    TString
  | TNumber
  | TBoolean
  | TAny
  | TVoid
  | TLiteral string
  | TUnion "ts_type list"
  | TArray ts_type
  | TPromise ts_type
  | TRecord ts_type ts_type
  | TNamed string
  | TObject "(string \<times> ts_type) list"

datatype param = Param string bool ts_type

datatype member =
    Property string bool ts_type
  | Method string "param list" ts_type

record interface =
  members :: "member list"
  index_signature :: "ts_type option"

definition ClientConfig :: interface where
  "ClientConfig = \<lparr>members =
     [Property ''serverUrl'' True TString,
      Property ''appId'' False (TUnion [TString, TNumber]),
      Property ''env'' True (TUnion [TLiteral ''prod'', TLiteral ''dev'']),
      Property ''token'' True TString,
      Property ''requiresAuth'' True TBoolean],
     index_signature = None\<rparr>"

definition Entity :: interface where
  "Entity = \<lparr>members = [Property ''id'' False TString], index_signature = Some TAny\<rparr>"




definition AuthModule :: interface where
  "AuthModule = \<lparr>members =
     [Method ''me'' [] (TPromise (TNamed ''Entity'')),
      Method ''updateMe'' [Param ''data'' False (TRecord TString TAny)]
        (TPromise (TNamed ''Entity'')),
      Method ''login'' [Param ''nextUrl'' True TString] TVoid,
      Method ''logout'' [Param ''redirectUrl'' True TString] (TPromise TVoid),
      Method ''setToken''
        [Param ''token'' False TString, Param ''saveToStorage'' True TBoolean] TVoid,
      Method ''isAuthenticated'' [] (TPromise TBoolean)],
     index_signature = None\<rparr>"

definition Base44Client :: interface where
  "Base44Client = \<lparr>members =
     [Property ''entities'' False (TNamed ''EntitiesModule''),
      Property ''integrations'' False (TNamed ''IntegrationsModule''),
      Property ''auth'' False (TNamed ''AuthModule''),
      Method ''setToken'' [Param ''token'' False TString] TVoid,
      Method ''getConfig'' []
        (TObject [(''serverUrl'', TString), (''appId'', TUnion [TString, TNumber]),
                  (''env'', TString), (''requiresAuth'', TBoolean)])],
     index_signature = None\<rparr>"

text \<open>
  The fields of class \<open>Base44Error extends Error\<close>; \<open>message\<close> is the one it inherits
  and its constructor requires.
\<close>

definition Base44Error_class :: interface where
  "Base44Error_class = \<lparr>members =
     [Property ''message'' False TString,
      Property ''status'' True TNumber,
      Property ''code'' True TString,
      Property ''data'' True TAny,
      Property ''originalError'' True (TNamed ''Error'')],
     index_signature = None\<rparr>"

text \<open>\<open>createClient(config: ClientConfig): Base44Client\<close>\<close>

definition createClient_signature :: member where
  "createClient_signature =
     Method ''createClient'' [Param ''config'' False (TNamed ''ClientConfig'')]
       (TNamed ''Base44Client'')"


fun member_name :: "member \<Rightarrow> string" where
  "member_name (Property n opt t) = n"
| "member_name (Method n ps t) = n"

definition member_names :: "interface \<Rightarrow> string list" where
  "member_names i = map member_name (members i)"

definition find_member :: "interface \<Rightarrow> string \<Rightarrow> member option" where
  "find_member i n = find (\<lambda>m. member_name m = n) (members i)"

text \<open>
  The type of \<open>x.key\<close> for \<open>x\<close> of an interface type: the declared member of that
  name, else what the index signature gives, else nothing (a type error).
\<close>

fun member_type :: "member \<Rightarrow> ts_type" where
  "member_type (Property n opt t) = t"
| "member_type (Method n ps t) = t"

definition property_type :: "interface \<Rightarrow> string \<Rightarrow> ts_type option" where
  "property_type i key =
     (case find_member i key of
        Some m \<Rightarrow> Some (member_type m)
      | None \<Rightarrow> index_signature i)"

text \<open>What a method's promise resolves with.\<close>

definition resolves_with :: "interface \<Rightarrow> string \<Rightarrow> ts_type option" where
  "resolves_with i n =
     (case find_member i n of
        Some (Method n' ps (TPromise t)) \<Rightarrow> Some t
      | _ \<Rightarrow> None)"

text \<open>
  Whether an object literal with the given keys is accepted where the interface is
  expected: every required member is given, and no key is in excess of the declared
  members (an interface with an index signature takes any key).
\<close>

fun required :: "member \<Rightarrow> bool" where
  "required (Property n opt t) = (\<not> opt)"
| "required (Method n ps t) = True"

definition accepts_literal :: "interface \<Rightarrow> string list \<Rightarrow> bool" where
  "accepts_literal i keys =
     (list_all (\<lambda>m. member_name m \<in> set keys) (filter required (members i)) \<and>
      (case index_signature i of
         Some t \<Rightarrow> True
       | None \<Rightarrow> list_all (\<lambda>k. k \<in> set (member_names i)) keys))"

section \<open>The client core, modelled from the specification\<close>

text \<open>
  The sources hold the client's declarations, its documentation and one caller (the
  morning webhook), not its implementation. The definitions of this section follow
  the specification's description of the client; each says so.
\<close>

datatype env = Prod | Dev

datatype 'n app_id = AppIdString string | AppIdNumber 'n

text \<open>
  Modelled from the spec: the configuration object handed to \<open>createClient\<close>, whose
  implementation is missing (data model, ClientConfig). A field the caller left out
  is \<open>None\<close>; nothing at run time keeps a caller from leaving out \<open>appId\<close>.
\<close>

record 'n config_input =
  in_serverUrl :: "string option"
  in_appId :: "'n app_id option"
  in_env :: "env option"
  in_token :: "string option"
  in_requiresAuth :: "bool option"
  in_autoInitAuth :: "bool option"

text \<open>
  Modelled from the spec: what \<open>getConfig\<close> returns, a snapshot with the four fields
  the declaration of \<open>Base44Client\<close> lists.
\<close>

record 'n config_snapshot =
  cfg_serverUrl :: string
  cfg_appId :: "'n app_id"
  cfg_env :: env
  cfg_requiresAuth :: bool

text \<open>
  Modelled from the spec: the state of a constructed client, the missing client
  factory's result: the resolved configuration and the one mutable field, the token.
\<close>

record 'n client =
  client_config :: "'n config_snapshot"
  client_autoInitAuth :: bool
  client_token :: "string option"

text \<open>
  Modelled from the spec: the error shape of the data model (Base44Error), with the
  fields the class declaration gives it, and beside it the two other kinds of failure
  the error taxonomy names: the configuration error of client construction, and a raw
  transport error as the host's transport raises it.
\<close>

datatype transport_error = NetworkUnreachable string

record 'n base44_error =
  err_message :: string
  err_status :: "nat option"
  err_code :: "string option"
  err_data :: "'n json option"
  err_originalError :: "transport_error option"

datatype 'n failure =
    ConfigurationError string
  | Base44Error "'n base44_error"
  | RawTransportError transport_error

text \<open>
  Modelled from the spec: the request descriptor of the data model and the request
  the missing Request Executor sends: the descriptor under the server URL, with the
  token as authorization header when there is one. The path is the list of segments
  after \<open>/api/apps/{appId}\<close>.
\<close>

datatype http_method = GET | POST | PUT | DELETE

record 'n request_descriptor =
  rd_method :: http_method
  rd_appId :: "'n app_id"
  rd_path :: "string list"
  rd_query :: "(string \<times> 'n json) list"
  rd_body :: "'n json option"
  rd_file :: "string option"

record 'n http_request =
  hr_serverUrl :: string
  hr_descriptor :: "'n request_descriptor"
  hr_authorization :: "string option"

text \<open>
  Modelled from the spec: the outcome of the host's transport, an external
  collaborator: no response at all, or a status with a parsed body (\<open>None\<close> when the
  body is empty).
\<close>

datatype 'n transport_result =
    NoResponse transport_error
  | HttpResponse nat "'n json option"

text \<open>
  Modelled from the spec: the fields of a parsed error body that the missing Request
  Executor copies into the error (section 4.1: code, message, data). The text used
  when the body carries no message is not given by the spec.
\<close>

definition body_message :: "'n json option \<Rightarrow> string" where
  "body_message body =
     (case opt_chain body ''message'' of Some (JStr m) \<Rightarrow> m | _ \<Rightarrow> ''Request failed'')"

definition body_code :: "'n json option \<Rightarrow> string option" where
  "body_code body = (case opt_chain body ''code'' of Some (JStr c) \<Rightarrow> Some c | _ \<Rightarrow> None)"

definition cause_message :: "transport_error \<Rightarrow> string" where
  "cause_message cause = (case cause of NetworkUnreachable m \<Rightarrow> m)"

text \<open>
  Modelled from the spec: the missing Request Executor (section 4.1). The token is
  read at call time. A status outside 2xx rejects with a Base44Error built from the
  status and the parsed error body; no response rejects with a Base44Error without
  status that wraps the cause as \<open>originalError\<close>; success resolves with the body as
  it is, and with no value for a DELETE whose body is empty.
\<close>

definition execute ::
  "('n http_request \<Rightarrow> 'n transport_result) \<Rightarrow> 'n client \<Rightarrow> 'n request_descriptor \<Rightarrow>
   'n failure + 'n json option" where
  "execute transport c d =
     (case transport \<lparr>hr_serverUrl = cfg_serverUrl (client_config c), hr_descriptor = d,
                      hr_authorization = client_token c\<rparr> of
        NoResponse cause \<Rightarrow>
          Inl (Base44Error \<lparr>err_message = cause_message cause, err_status = None,
                 err_code = None, err_data = None, err_originalError = Some cause\<rparr>)
      | HttpResponse st body \<Rightarrow>
          if 200 \<le> st \<and> st < 300 then
            (if rd_method d = DELETE \<and> body = None then Inr None else Inr body)
          else
            Inl (Base44Error \<lparr>err_message = body_message body, err_status = Some st,
                   err_code = body_code body, err_data = opt_chain body ''data'',
                   err_originalError = None\<rparr>))"

text \<open>
  Modelled from the spec: the operation set of the missing Entity Proxy Factory
  (section 4.4) with the recognised query options, and the descriptor each operation
  translates into (section 6: \<open>entities/{entityName}[/{id}]\<close>). The spec names no
  further path for the bulk and import calls; they go to the collection path.
\<close>

record 'n query_options =
  opt_sort :: "string option"
  opt_limit :: "'n option"
  opt_skip :: "'n option"
  opt_fields :: "string list option"

definition options_query :: "'n query_options \<Rightarrow> (string \<times> 'n json) list" where
  "options_query opts =
     (case opt_sort opts of None \<Rightarrow> [] | Some v \<Rightarrow> [(''sort'', JStr v)]) @
     (case opt_limit opts of None \<Rightarrow> [] | Some n \<Rightarrow> [(''limit'', JNum n)]) @
     (case opt_skip opts of None \<Rightarrow> [] | Some n \<Rightarrow> [(''skip'', JNum n)]) @
     (case opt_fields opts of None \<Rightarrow> [] | Some fs \<Rightarrow> [(''fields'', JArr (map JStr fs))])"

datatype 'n entity_operation =
    Op_list "'n query_options"
  | Op_filter "(string \<times> 'n json) list" "'n query_options"
  | Op_get string
  | Op_create "(string \<times> 'n json) list"
  | Op_update string "(string \<times> 'n json) list"
  | Op_delete string
  | Op_deleteMany "(string \<times> 'n json) list"
  | Op_bulkCreate "(string \<times> 'n json) list list"
  | Op_importEntities string

fun entity_request :: "'n app_id \<Rightarrow> string \<Rightarrow> 'n entity_operation \<Rightarrow> 'n request_descriptor" where
  "entity_request app name (Op_list opts) =
     \<lparr>rd_method = GET, rd_appId = app, rd_path = [''entities'', name],
      rd_query = options_query opts, rd_body = None, rd_file = None\<rparr>"
| "entity_request app name (Op_filter query opts) =
     \<lparr>rd_method = GET, rd_appId = app, rd_path = [''entities'', name],
      rd_query = query @ options_query opts, rd_body = None, rd_file = None\<rparr>"
| "entity_request app name (Op_get i) =
     \<lparr>rd_method = GET, rd_appId = app, rd_path = [''entities'', name, i],
      rd_query = [], rd_body = None, rd_file = None\<rparr>"
| "entity_request app name (Op_create data) =
     \<lparr>rd_method = POST, rd_appId = app, rd_path = [''entities'', name],
      rd_query = [], rd_body = Some (JObj data), rd_file = None\<rparr>"
| "entity_request app name (Op_update i data) =
     \<lparr>rd_method = PUT, rd_appId = app, rd_path = [''entities'', name, i],
      rd_query = [], rd_body = Some (JObj data), rd_file = None\<rparr>"
| "entity_request app name (Op_delete i) =
     \<lparr>rd_method = DELETE, rd_appId = app, rd_path = [''entities'', name, i],
      rd_query = [], rd_body = None, rd_file = None\<rparr>"
| "entity_request app name (Op_deleteMany query) =
     \<lparr>rd_method = DELETE, rd_appId = app, rd_path = [''entities'', name],
      rd_query = query, rd_body = None, rd_file = None\<rparr>"
| "entity_request app name (Op_bulkCreate rows) =
     \<lparr>rd_method = POST, rd_appId = app, rd_path = [''entities'', name],
      rd_query = [], rd_body = Some (JArr (map JObj rows)), rd_file = None\<rparr>"
| "entity_request app name (Op_importEntities file) =
     \<lparr>rd_method = POST, rd_appId = app, rd_path = [''entities'', name],
      rd_query = [], rd_body = None, rd_file = Some file\<rparr>"


text \<open>
  Modelled from the spec: the entity handle of the missing Entity Proxy Factory: any
  name is taken, and each operation is one call of the Request Executor.
\<close>

definition entities ::
  "('n http_request \<Rightarrow> 'n transport_result) \<Rightarrow> 'n client \<Rightarrow> string \<Rightarrow> 'n entity_operation \<Rightarrow>
   'n failure + 'n json option" where
  "entities transport c name op =
     execute transport c (entity_request (cfg_appId (client_config c)) name op)"

text \<open>
  Modelled from the spec: the callable of the missing Integration Proxy Factory
  (section 4.5): a POST of the payload to the path of the package and the endpoint.
\<close>

definition integrations ::
  "('n http_request \<Rightarrow> 'n transport_result) \<Rightarrow> 'n client \<Rightarrow> string \<Rightarrow> string \<Rightarrow> 'n json \<Rightarrow>
   'n failure + 'n json option" where
  "integrations transport c package endpoint payload =
     execute transport c
       \<lparr>rd_method = POST, rd_appId = cfg_appId (client_config c),
        rd_path = [''integrations'', package, endpoint],
        rd_query = [], rd_body = Some payload, rd_file = None\<rparr>"

text \<open>
  Modelled from the spec: \<open>me\<close> of the missing Auth Module (sections 4.3 and 7): a GET
  to the identity endpoint, and with no token set a Base44Error of its own instead
  of an empty identity. The spec gives that error no text or code.
\<close>

definition auth_me ::
  "('n http_request \<Rightarrow> 'n transport_result) \<Rightarrow> 'n client \<Rightarrow> 'n failure + 'n json option" where
  "auth_me transport c =
     (case client_token c of
        None \<Rightarrow>
          Inl (Base44Error \<lparr>err_message = ''Authentication required'', err_status = None,
                 err_code = None, err_data = None, err_originalError = None\<rparr>)
      | Some t \<Rightarrow>
          execute transport c
            \<lparr>rd_method = GET, rd_appId = cfg_appId (client_config c),
             rd_path = [''auth'', ''me''], rd_query = [], rd_body = None, rd_file = None\<rparr>)"

text \<open>
  Modelled from the spec: \<open>updateMe\<close> of the missing Auth Module: a PUT of the field
  mapping to the identity endpoint.
\<close>

definition auth_updateMe ::
  "('n http_request \<Rightarrow> 'n transport_result) \<Rightarrow> 'n client \<Rightarrow> (string \<times> 'n json) list \<Rightarrow>
   'n failure + 'n json option" where
  "auth_updateMe transport c data =
     execute transport c
       \<lparr>rd_method = PUT, rd_appId = cfg_appId (client_config c),
        rd_path = [''auth'', ''me''], rd_query = [], rd_body = Some (JObj data),
        rd_file = None\<rparr>"

text \<open>
  Modelled from the spec: \<open>isAuthenticated\<close> of the missing Auth Module: true iff a token
  is present and the identity probe \<open>me\<close> succeeds; a failing probe gives false and is
  not propagated. The result is the promise's outcome, \<open>Inl\<close> a rejection.
\<close>

definition auth_isAuthenticated ::
  "('n http_request \<Rightarrow> 'n transport_result) \<Rightarrow> 'n client \<Rightarrow> 'n failure + bool" where
  "auth_isAuthenticated transport c =
     (case client_token c of
        None \<Rightarrow> Inr False
      | Some t \<Rightarrow>
          (case auth_me transport c of
             Inl err \<Rightarrow> Inr False
           | Inr identity \<Rightarrow> Inr True))"

text \<open>
  Modelled from the spec: \<open>setToken\<close> and \<open>logout\<close> of the missing Auth Module, as far
  as the client's state goes (storage and the redirect are the environment's), and
  \<open>getConfig\<close> of the missing Client Factory.
\<close>

definition setToken :: "string \<Rightarrow> 'n client \<Rightarrow> 'n client" where
  "setToken token c = c\<lparr>client_token := Some token\<rparr>"

definition auth_logout :: "'n client \<Rightarrow> 'n client" where
  "auth_logout c = c\<lparr>client_token := None\<rparr>"

definition getConfig :: "'n client \<Rightarrow> 'n config_snapshot" where
  "getConfig c = client_config c"

text \<open>
  Modelled from the spec: the missing Client Factory (section 4.6). A configuration
  without \<open>appId\<close> fails with a configuration error; otherwise the defaults are applied
  (the server URL is the documented \<open>https://base44.app\<close>; \<open>requiresAuth\<close> has no
  documented default and is taken as false). The second component is the list of
  requests sent during construction.
\<close>

definition createClient :: "'n config_input \<Rightarrow> ('n failure + 'n client) \<times> 'n http_request list" where
  "createClient config =
     (case in_appId config of
        None \<Rightarrow> (Inl (ConfigurationError ''appId is required''), [])
      | Some app \<Rightarrow>
          (Inr \<lparr>client_config =
                  \<lparr>cfg_serverUrl = (case in_serverUrl config of None \<Rightarrow> ''https://base44.app''
                                     | Some url \<Rightarrow> url),
                   cfg_appId = app,
                   cfg_env = (case in_env config of None \<Rightarrow> Prod | Some e \<Rightarrow> e),
                   cfg_requiresAuth = (case in_requiresAuth config of None \<Rightarrow> False
                                        | Some b \<Rightarrow> b)\<rparr>,
                client_autoInitAuth = (case in_autoInitAuth config of None \<Rightarrow> True
                                        | Some b \<Rightarrow> b),
                client_token = in_token config\<rparr>, []))"

text \<open>
  Modelled from the spec: the operations of a composed client that return a promise,
  and what each resolves or rejects with.
\<close>

datatype 'n operation =
    Entities string "'n entity_operation"
  | Integrations string string "'n json"
  | Auth_me
  | Auth_updateMe "(string \<times> 'n json) list"
  | Auth_isAuthenticated

datatype 'n settled = Value "'n json option" | Boolean bool

fun perform ::
  "('n http_request \<Rightarrow> 'n transport_result) \<Rightarrow> 'n client \<Rightarrow> 'n operation \<Rightarrow>
   'n failure + 'n settled" where
  "perform transport c (Entities name op) = map_sum (\<lambda>e. e) Value (entities transport c name op)"
| "perform transport c (Integrations package endpoint payload) =
     map_sum (\<lambda>e. e) Value (integrations transport c package endpoint payload)"
| "perform transport c Auth_me = map_sum (\<lambda>e. e) Value (auth_me transport c)"
| "perform transport c (Auth_updateMe data) =
     map_sum (\<lambda>e. e) Value (auth_updateMe transport c data)"
| "perform transport c Auth_isAuthenticated =
     map_sum (\<lambda>e. e) Boolean (auth_isAuthenticated transport c)"

section \<open>Concrete inputs\<close>

text \<open>
  A runtime over integer numbers, a request whose body arrives in two chunks, and a
  backend that is a table of users: \<open>filter\<close> returns the rows whose fields equal the
  query's, \<open>update\<close> overwrites the given fields of the row with the given id.
\<close>

fun decimal :: "nat \<Rightarrow> string" where
  "decimal n =
     (if n < 10 then [''0123456789'' ! n]
      else decimal (n div 10) @ [''0123456789'' ! (n mod 10)])"

definition dana_payload :: "int json" where
  "dana_payload = JObj [(''payer'', JObj [(''email'', JStr ''dana@example.com'')])]"

definition int_runtime :: "int runtime" where
  \<open>int_runtime =
     \<lparr>num_falsy = (\<lambda>n. n = 0),
      num_toString = (\<lambda>n. if n < 0 then ''-'' @ decimal (nat (- n)) else decimal (nat n)),
      buffer_toString = (\<lambda>bytes. bytes),
      JSON_parse = (\<lambda>raw.
        if raw = ''{"payer":{"email":"dana@example.com"}}'' then Inr dana_payload
        else if raw = ''{"payer":{"email":""}}''
          then Inr (JObj [(''payer'', JObj [(''email'', JStr '''')])])
        else if raw = ''{}'' then Inr (JObj [])
        else Inl SyntaxError)\<rparr>\<close>

definition fresh_response :: response where
  "fresh_response = \<lparr>res_statusCode = 200, res_headers = Map.empty, res_sent = None\<rparr>"

definition dana_post :: "int request" where
  \<open>dana_post =
     \<lparr>req_method = ''POST'', req_body = Some dana_payload,
      req_stream = Chunk ''{"payer":{"email":'' (Chunk ''"dana@example.com"}}'' End)\<rparr>\<close>

definition empty_post :: "int request" where
  "empty_post =
     \<lparr>req_method = ''POST'', req_body = Some (JObj []), req_stream = Chunk ''{}'' End\<rparr>"

definition blank_post :: "int request" where
  \<open>blank_post =
     \<lparr>req_method = ''POST'',
      req_body = Some (JObj [(''payer'', JObj [(''email'', JStr '''')])]),
      req_stream = Chunk ''{"payer":{"email":""}}'' End\<rparr>\<close>

definition dana :: "int entity" where
  "dana =
     \<lparr>entity_id = ''u1'',
      entity_fields = [(''email'', JStr ''dana@example.com''), (''full_name'', JStr ''Dana Levi''),
                       (''subscription_type'', JStr ''free'')]\<rparr>"

definition matches :: "(string \<times> int json) list \<Rightarrow> int entity \<Rightarrow> bool" where
  "matches query u = list_all (\<lambda>kv. map_of (entity_fields u) (fst kv) = Some (snd kv)) query"

definition overwrite :: "(string \<times> int json) list \<Rightarrow> int entity \<Rightarrow> int entity" where
  "overwrite data u =
     u\<lparr>entity_fields :=
         map (\<lambda>kv. case map_of data (fst kv) of None \<Rightarrow> kv | Some v \<Rightarrow> (fst kv, v))
           (entity_fields u) @
         filter (\<lambda>kv. map_of (entity_fields u) (fst kv) = None) data\<rparr>"

definition table_User :: "(int, int entity list) user_handle" where
  "table_User =
     \<lparr>filter_op = (\<lambda>query table. (Inr (filter (matches query) table), table)),
      update_op = (\<lambda>i data table.
        case find (\<lambda>u. entity_id u = i) table of
          None \<Rightarrow> (Inl (Rejected ''Entity not found''), table)
        | Some u \<Rightarrow>
            (Inr (overwrite data u),
             map (\<lambda>x. if entity_id x = i then overwrite data x else x) table))\<rparr>"

text \<open>The same table behind a backend that refuses every update.\<close>

definition readonly_User :: "(int, int entity list) user_handle" where
  "readonly_User =
     \<lparr>filter_op = filter_op table_User,
      update_op = (\<lambda>i data table. (Inl (Rejected ''Permission denied''), table))\<rparr>"

text \<open>A client, a transport with no network, and one whose server answers 404.\<close>

definition todo_config :: "int config_input" where
  "todo_config =
     \<lparr>in_serverUrl = None, in_appId = Some (AppIdString ''todo-app''), in_env = None,
      in_token = Some ''t0ken'', in_requiresAuth = None, in_autoInitAuth = None\<rparr>"

definition empty_config :: "int config_input" where
  "empty_config =
     \<lparr>in_serverUrl = None, in_appId = None, in_env = None, in_token = None,
      in_requiresAuth = None, in_autoInitAuth = None\<rparr>"

definition todo_client :: "int client" where
  "todo_client =
     \<lparr>client_config =
        \<lparr>cfg_serverUrl = ''https://base44.app'', cfg_appId = AppIdString ''todo-app'',
         cfg_env = Prod, cfg_requiresAuth = False\<rparr>,
      client_autoInitAuth = True, client_token = Some ''t0ken''\<rparr>"

definition offline :: "int http_request \<Rightarrow> int transport_result" where
  "offline request = NoResponse (NetworkUnreachable ''Network Error'')"

definition gone :: "int http_request \<Rightarrow> int transport_result" where
  "gone request =
     HttpResponse 404 (Some (JObj [(''message'', JStr ''Not found''), (''code'', JStr ''NOT_FOUND'')]))"



section \<open>Lemmas\<close>

lemma post_try_update_origin:
  assumes "post_try rt User req res s = (out, issued, s')"
      and "UpdateCall i data \<in> set issued"
  shows "\<exists>buffers payload e user others s1.
           read_chunks (req_stream req) [] = Inr buffers \<and>
           JSON_parse rt (buffer_toString rt (concat buffers)) = Inr payload \<and>
           opt_chain (opt_chain (Some payload) ''payer'') ''email'' = Some e \<and>
           truthy rt (Some e) \<and>
           filter_op User [(''email'', e)] s = (Inr (user # others), s1) \<and>
           i = entity_id user \<and> data = [(''subscription_type'', JStr ''premium'')] \<and>
           issued = [FilterCall [(''email'', e)], UpdateCall i data]"
  using assms
  by (auto simp: post_try_def Let_def
           split: sum.splits option.splits list.splits prod.splits if_splits)

lemma morning_handler_issued:
  "fst (snd (morning_handler rt User req res s)) =
     (if req_method req = ''POST'' then fst (snd (post_try rt User req res s)) else [])"
  by (auto simp: morning_handler_def split: sum.splits prod.splits)



lemma execute_failure:
  assumes "execute transport c d = Inl f"
  shows "\<exists>e. f = Base44Error e"
  using assms by (auto simp: execute_def split: transport_result.splits if_splits)

lemma auth_me_failure:
  assumes "auth_me transport c = Inl f"
  shows "\<exists>e. f = Base44Error e"
  using assms by (auto simp: auth_me_def split: option.splits dest: execute_failure)

lemma dana_chunks:
  \<open>read_chunks (req_stream dana_post) [] = Inr [''{"payer":{"email":'', ''"dana@example.com"}}'']\<close>
  by (simp add: dana_post_def)

lemma dana_parsed:
  \<open>JSON_parse int_runtime
     (buffer_toString int_runtime (concat [''{"payer":{"email":'', ''"dana@example.com"}}''])) =
   Inr dana_payload\<close>
  by (simp add: int_runtime_def)

lemma dana_email:
  "opt_chain (opt_chain (Some dana_payload) ''payer'') ''email'' = Some (JStr ''dana@example.com'')"
  by (simp add: dana_payload_def)

lemma dana_found:
  "filter_op table_User [(''email'', JStr ''dana@example.com'')] [dana] = (Inr [dana], [dana])"
  by (simp add: table_User_def matches_def dana_def)

section \<open>The webhook handlers\<close>

text \<open>
  Claim C2. Each of the two handlers answers every GET request with status 200 and
  the fixed text \<open>GET is working\<close>; it issues no backend call and leaves the backend
  as it was (the simpler handler has no backend to call).
\<close>

theorem get_is_working:
  assumes "req_method req = ''GET''"
  shows "morning_handler rt User req res s =
           (res\<lparr>res_statusCode := 200, res_sent := Some ''GET is working''\<rparr>, [], s)
       \<and> webhook_handler rt req res =
           Inr (res\<lparr>res_statusCode := 200, res_sent := Some ''GET is working''\<rparr>)"
  using assms by (simp add: morning_handler_def webhook_handler_def status_def send_def)

theorem get_is_working_witness:
  "req_method (dana_post\<lparr>req_method := ''GET''\<rparr>) = ''GET''
   \<and> morning_handler int_runtime table_User (dana_post\<lparr>req_method := ''GET''\<rparr>)
        fresh_response [dana] =
       (\<lparr>res_statusCode = 200, res_headers = Map.empty, res_sent = Some ''GET is working''\<rparr>,
        [], [dana])
   \<and> webhook_handler int_runtime (dana_post\<lparr>req_method := ''GET''\<rparr>) fresh_response =
       Inr \<lparr>res_statusCode = 200, res_headers = Map.empty, res_sent = Some ''GET is working''\<rparr>"
  using get_is_working [of "dana_post\<lparr>req_method := ''GET''\<rparr>" int_runtime table_User
      fresh_response "[dana]"]
  by (simp add: fresh_response_def)

text \<open>
  Claim C8. For a request whose method is neither GET nor POST, each of the two
  handlers sets the header \<open>Allow\<close> to the list POST, GET and answers with status 405
  (and the text \<open>Method m Not Allowed\<close>), issuing no backend call.
\<close>

theorem other_methods_not_allowed:
  assumes "req_method req \<noteq> ''GET''" and "req_method req \<noteq> ''POST''"
  shows "morning_handler rt User req res s =
           (res\<lparr>res_statusCode := 405,
                res_headers := (res_headers res)(''Allow'' \<mapsto> [''POST'', ''GET'']),
                res_sent := Some (''Method '' @ req_method req @ '' Not Allowed'')\<rparr>, [], s)
       \<and> webhook_handler rt req res =
           Inr (res\<lparr>res_statusCode := 405,
                  res_headers := (res_headers res)(''Allow'' \<mapsto> [''POST'', ''GET'']),
                  res_sent := Some (''Method '' @ req_method req @ '' Not Allowed'')\<rparr>)"
  using assms
  by (simp add: morning_handler_def webhook_handler_def status_def send_def end_with_def
        setHeader_def)

theorem other_methods_not_allowed_witness:
  "req_method (dana_post\<lparr>req_method := ''DELETE''\<rparr>) \<noteq> ''GET''
   \<and> req_method (dana_post\<lparr>req_method := ''DELETE''\<rparr>) \<noteq> ''POST''
   \<and> morning_handler int_runtime table_User (dana_post\<lparr>req_method := ''DELETE''\<rparr>)
        fresh_response [dana] =
       (\<lparr>res_statusCode = 405, res_headers = [''Allow'' \<mapsto> [''POST'', ''GET'']],
         res_sent = Some ''Method DELETE Not Allowed''\<rparr>, [], [dana])
   \<and> webhook_handler int_runtime (dana_post\<lparr>req_method := ''DELETE''\<rparr>) fresh_response =
       Inr \<lparr>res_statusCode = 405, res_headers = [''Allow'' \<mapsto> [''POST'', ''GET'']],
            res_sent = Some ''Method DELETE Not Allowed''\<rparr>"
  using other_methods_not_allowed [of "dana_post\<lparr>req_method := ''DELETE''\<rparr>" int_runtime
      table_User fresh_response "[dana]"]
  by (simp add: fresh_response_def)

text \<open>
  Claim C9. For a POST request to the morning webhook handler whose body is read and
  parsed: when the payload has no \<open>payer.email\<close>, or a falsy one, the answer is 400
  and no backend call is issued; when the filter by a truthy email resolves with the
  empty list the answer is 404 and the filter call is the only one issued. For every
  request, an update call is among the issued calls only if the request is a POST
  whose payload has a truthy \<open>payer.email\<close> and the filter by that very email
  resolved with at least one user; the update is then the one setting
  \<open>subscription_type\<close> to \<open>premium\<close> on the id of the first user returned, and that
  filter call and this update are all the calls issued.
\<close>

theorem morning_post_guards:
  "(\<forall>buffers payload.
      req_method req = ''POST'' \<and> read_chunks (req_stream req) [] = Inr buffers \<and>
      JSON_parse rt (buffer_toString rt (concat buffers)) = Inr payload \<and>
      \<not> truthy rt (opt_chain (opt_chain (Some payload) ''payer'') ''email'') \<longrightarrow>
      morning_handler rt User req res s =
        (res\<lparr>res_statusCode := 400, res_sent := Some ''Email not found in payload''\<rparr>, [], s))
   \<and> (\<forall>buffers payload e s1.
      req_method req = ''POST'' \<and> read_chunks (req_stream req) [] = Inr buffers \<and>
      JSON_parse rt (buffer_toString rt (concat buffers)) = Inr payload \<and>
      opt_chain (opt_chain (Some payload) ''payer'') ''email'' = Some e \<and> truthy rt (Some e) \<and>
      filter_op User [(''email'', e)] s = (Inr [], s1) \<longrightarrow>
      morning_handler rt User req res s =
        (res\<lparr>res_statusCode := 404, res_sent := Some ''User not found''\<rparr>,
         [FilterCall [(''email'', e)]], s1))
   \<and> (\<forall>i data.
      UpdateCall i data \<in> set (fst (snd (morning_handler rt User req res s))) \<longrightarrow>
      req_method req = ''POST'' \<and>
      (\<exists>buffers payload e user others s1.
         read_chunks (req_stream req) [] = Inr buffers \<and>
         JSON_parse rt (buffer_toString rt (concat buffers)) = Inr payload \<and>
         opt_chain (opt_chain (Some payload) ''payer'') ''email'' = Some e \<and>
         truthy rt (Some e) \<and>
         filter_op User [(''email'', e)] s = (Inr (user # others), s1) \<and>
         i = entity_id user \<and> data = [(''subscription_type'', JStr ''premium'')] \<and>
         fst (snd (morning_handler rt User req res s)) =
           [FilterCall [(''email'', e)], UpdateCall i data]))"
proof (intro conjI allI impI)
  fix buffers payload
  assume "req_method req = ''POST'' \<and> read_chunks (req_stream req) [] = Inr buffers \<and>
      JSON_parse rt (buffer_toString rt (concat buffers)) = Inr payload \<and>
      \<not> truthy rt (opt_chain (opt_chain (Some payload) ''payer'') ''email'')"
  then show "morning_handler rt User req res s =
        (res\<lparr>res_statusCode := 400, res_sent := Some ''Email not found in payload''\<rparr>, [], s)"
    by (cases "opt_chain (opt_chain (Some payload) ''payer'') ''email''")
       (simp_all add: morning_handler_def post_try_def status_def send_def)
next
  fix buffers payload e s1
  assume "req_method req = ''POST'' \<and> read_chunks (req_stream req) [] = Inr buffers \<and>
      JSON_parse rt (buffer_toString rt (concat buffers)) = Inr payload \<and>
      opt_chain (opt_chain (Some payload) ''payer'') ''email'' = Some e \<and> truthy rt (Some e) \<and>
      filter_op User [(''email'', e)] s = (Inr [], s1)"
  then show "morning_handler rt User req res s =
        (res\<lparr>res_statusCode := 404, res_sent := Some ''User not found''\<rparr>,
         [FilterCall [(''email'', e)]], s1)"
    by (simp add: morning_handler_def post_try_def status_def send_def)
next
  fix i data
  assume "UpdateCall i data \<in> set (fst (snd (morning_handler rt User req res s)))"
  then show "req_method req = ''POST''"
    by (simp add: morning_handler_issued split: if_splits)
next
  fix i data
  assume issued_update: "UpdateCall i data \<in> set (fst (snd (morning_handler rt User req res s)))"
  then have post: "req_method req = ''POST''"
    by (simp add: morning_handler_issued split: if_splits)
  obtain out issued s' where tried: "post_try rt User req res s = (out, issued, s')"
    by (cases "post_try rt User req res s") auto
  with post have same: "fst (snd (morning_handler rt User req res s)) = issued"
    by (simp add: morning_handler_issued)
  with issued_update have "UpdateCall i data \<in> set issued"
    by simp
  from post_try_update_origin [OF tried this] same
  show "\<exists>buffers payload e user others s1.
         read_chunks (req_stream req) [] = Inr buffers \<and>
         JSON_parse rt (buffer_toString rt (concat buffers)) = Inr payload \<and>
         opt_chain (opt_chain (Some payload) ''payer'') ''email'' = Some e \<and>
         truthy rt (Some e) \<and>
         filter_op User [(''email'', e)] s = (Inr (user # others), s1) \<and>
         i = entity_id user \<and> data = [(''subscription_type'', JStr ''premium'')] \<and>
         fst (snd (morning_handler rt User req res s)) =
           [FilterCall [(''email'', e)], UpdateCall i data]"
    by simp
qed

text \<open>
  The parts at concrete requests: an empty payload and a payload whose email is the
  empty string; a payload whose email no row of the table has (the table is empty);
  and Dana's payload against the table that holds her row, where the update is
  issued after the filter by her address.
\<close>

theorem morning_post_guards_witness:
  "morning_handler int_runtime table_User empty_post fresh_response [dana] =
     (\<lparr>res_statusCode = 400, res_headers = Map.empty,
       res_sent = Some ''Email not found in payload''\<rparr>, [], [dana])
   \<and> morning_handler int_runtime table_User blank_post fresh_response [dana] =
     (\<lparr>res_statusCode = 400, res_headers = Map.empty,
       res_sent = Some ''Email not found in payload''\<rparr>, [], [dana])
   \<and> morning_handler int_runtime table_User dana_post fresh_response [] =
     (\<lparr>res_statusCode = 404, res_headers = Map.empty, res_sent = Some ''User not found''\<rparr>,
      [FilterCall [(''email'', JStr ''dana@example.com'')]], [])
   \<and> UpdateCall ''u1'' [(''subscription_type'', JStr ''premium'')]
       \<in> set (fst (snd (morning_handler int_runtime table_User dana_post fresh_response [dana])))
   \<and> fst (snd (morning_handler int_runtime table_User dana_post fresh_response [dana])) =
       [FilterCall [(''email'', JStr ''dana@example.com'')],
        UpdateCall ''u1'' [(''subscription_type'', JStr ''premium'')]]"
proof -
  have empty_read: "read_chunks (req_stream empty_post) [] = Inr [''{}'']"
    by (simp add: empty_post_def)
  have empty_parsed:
    "JSON_parse int_runtime (buffer_toString int_runtime (concat [''{}''])) = Inr (JObj [])"
    by (simp add: int_runtime_def)
  have no_email:
    "\<not> truthy int_runtime (opt_chain (opt_chain (Some (JObj [])) ''payer'') ''email'')"
    by simp
  have bad_request:
    "morning_handler int_runtime table_User empty_post fresh_response [dana] =
       (fresh_response\<lparr>res_statusCode := 400, res_sent := Some ''Email not found in payload''\<rparr>,
        [], [dana])"
    using morning_post_guards [of empty_post int_runtime table_User fresh_response "[dana]"]
      empty_read empty_parsed no_email
    by (simp add: empty_post_def)
  have blank_read: \<open>read_chunks (req_stream blank_post) [] = Inr [''{"payer":{"email":""}}'']\<close>
    by (simp add: blank_post_def)
  have blank_parsed:
    \<open>JSON_parse int_runtime (buffer_toString int_runtime (concat [''{"payer":{"email":""}}''])) =
       Inr (JObj [(''payer'', JObj [(''email'', JStr '''')])])\<close>
    by (simp add: int_runtime_def)
  have blank_email:
    "\<not> truthy int_runtime
         (opt_chain (opt_chain (Some (JObj [(''payer'', JObj [(''email'', JStr '''')])])) ''payer'')
            ''email'')"
    by simp
  have blank_request:
    "morning_handler int_runtime table_User blank_post fresh_response [dana] =
       (fresh_response\<lparr>res_statusCode := 400, res_sent := Some ''Email not found in payload''\<rparr>,
        [], [dana])"
    using morning_post_guards [of blank_post int_runtime table_User fresh_response "[dana]"]
      blank_read blank_parsed blank_email
    by (simp add: blank_post_def)
  have nobody: "filter_op table_User [(''email'', JStr ''dana@example.com'')] [] = (Inr [], [])"
    by (simp add: table_User_def)
  have not_found:
    "morning_handler int_runtime table_User dana_post fresh_response [] =
       (fresh_response\<lparr>res_statusCode := 404, res_sent := Some ''User not found''\<rparr>,
        [FilterCall [(''email'', JStr ''dana@example.com'')]], [])"
    using morning_post_guards [of dana_post int_runtime table_User fresh_response "[]"]
      dana_chunks dana_parsed dana_email nobody
    by (simp add: dana_post_def)
  have updated:
    "UpdateCall ''u1'' [(''subscription_type'', JStr ''premium'')]
       \<in> set (fst (snd (morning_handler int_runtime table_User dana_post fresh_response [dana])))"
    using dana_chunks dana_parsed dana_email dana_found
    by (simp add: morning_handler_def post_try_def dana_post_def table_User_def dana_def
          template_def status_def send_def Let_def)
  have origin:
    "\<exists>buffers payload e.
       read_chunks (req_stream dana_post) [] = Inr buffers \<and>
       JSON_parse int_runtime (buffer_toString int_runtime (concat buffers)) = Inr payload \<and>
       opt_chain (opt_chain (Some payload) ''payer'') ''email'' = Some e \<and>
       fst (snd (morning_handler int_runtime table_User dana_post fresh_response [dana])) =
         [FilterCall [(''email'', e)],
          UpdateCall ''u1'' [(''subscription_type'', JStr ''premium'')]]"
    using morning_post_guards [of dana_post int_runtime table_User fresh_response "[dana]"]
      updated
    by blast
  with dana_chunks dana_parsed dana_email have calls:
    "fst (snd (morning_handler int_runtime table_User dana_post fresh_response [dana])) =
       [FilterCall [(''email'', JStr ''dana@example.com'')],
        UpdateCall ''u1'' [(''subscription_type'', JStr ''premium'')]]"
    by auto
  from bad_request blank_request not_found updated calls show ?thesis
    by (simp add: fresh_response_def)
qed

text \<open>
  Claim C1, as amended. For a POST request to the morning webhook handler whose body
  parses to a payload with a truthy \<open>payer.email\<close>, and for which the filter by that
  email resolves with at least one user, the handler issues exactly one filter call
  by the email and then one update call setting \<open>subscription_type\<close> to \<open>premium\<close> on
  the id of the first user returned. It answers 200 when that update resolves and the
  user's \<open>full_name\<close> has a string conversion, and 500 otherwise (the update call
  rejected, or the conversion threw).
\<close>

theorem morning_post_match_outcome:
  assumes "req_method req = ''POST''"
      and "read_chunks (req_stream req) [] = Inr buffers"
      and "JSON_parse rt (buffer_toString rt (concat buffers)) = Inr payload"
      and "opt_chain (opt_chain (Some payload) ''payer'') ''email'' = Some e"
      and "truthy rt (Some e)"
      and "filter_op User [(''email'', e)] s = (Inr (user # others), s1)"
      and "update_op User (entity_id user) [(''subscription_type'', JStr ''premium'')] s1 =
             (updated, s2)"
  shows "snd (morning_handler rt User req res s) =
           ([FilterCall [(''email'', e)],
             UpdateCall (entity_id user) [(''subscription_type'', JStr ''premium'')]], s2)
       \<and> fst (morning_handler rt User req res s) =
           (case (updated, template rt (map_of (entity_fields user) ''full_name'')) of
              (Inr u, Inr name) \<Rightarrow>
                res\<lparr>res_statusCode := 200,
                    res_sent := Some (''User '' @ name @ '' updated to premium'')\<rparr>
            | _ \<Rightarrow> res\<lparr>res_statusCode := 500, res_sent := Some ''Internal server error''\<rparr>)"
  using assms
  by (simp add: morning_handler_def post_try_def status_def send_def Let_def split: sum.splits)

theorem morning_post_match_outcome_witness:
  "morning_handler int_runtime table_User dana_post fresh_response [dana] =
     (\<lparr>res_statusCode = 200, res_headers = Map.empty,
       res_sent = Some ''User Dana Levi updated to premium''\<rparr>,
      [FilterCall [(''email'', JStr ''dana@example.com'')],
       UpdateCall ''u1'' [(''subscription_type'', JStr ''premium'')]],
      [\<lparr>entity_id = ''u1'',
        entity_fields = [(''email'', JStr ''dana@example.com''), (''full_name'', JStr ''Dana Levi''),
                         (''subscription_type'', JStr ''premium'')]\<rparr>])"
proof -
  have post: "req_method dana_post = ''POST''"
    by (simp add: dana_post_def)
  have truthy_email: "truthy int_runtime (Some (JStr ''dana@example.com''))"
    by simp
  have update:
    "update_op table_User (entity_id dana) [(''subscription_type'', JStr ''premium'')] [dana] =
       (Inr (overwrite [(''subscription_type'', JStr ''premium'')] dana),
        [overwrite [(''subscription_type'', JStr ''premium'')] dana])"
    by (simp add: table_User_def)
  have name: "template int_runtime (map_of (entity_fields dana) ''full_name'') = Inr ''Dana Levi''"
    by (simp add: template_def dana_def)
  from morning_post_match_outcome
         [OF post dana_chunks dana_parsed dana_email truthy_email dana_found update,
          of fresh_response]
       name
  have "morning_handler int_runtime table_User dana_post fresh_response [dana] =
          (fresh_response\<lparr>res_statusCode := 200,
             res_sent := Some ''User Dana Levi updated to premium''\<rparr>,
           [FilterCall [(''email'', JStr ''dana@example.com'')],
            UpdateCall (entity_id dana) [(''subscription_type'', JStr ''premium'')]],
           [overwrite [(''subscription_type'', JStr ''premium'')] dana])"
    by (simp add: prod_eq_iff)
  then show ?thesis
    by (simp add: fresh_response_def overwrite_def dana_def)
qed

text \<open>
  Claim C1 as stated fails: Dana's email matches her row, the filter returns it, the
  update call is issued, the backend rejects it, and the answer is 500, not 200.
\<close>

theorem morning_post_update_rejected:
  "req_method dana_post = ''POST''
   \<and> opt_chain (opt_chain (Some dana_payload) ''payer'') ''email'' = Some (JStr ''dana@example.com'')
   \<and> filter_op readonly_User [(''email'', JStr ''dana@example.com'')] [dana] = (Inr [dana], [dana])
   \<and> morning_handler int_runtime readonly_User dana_post fresh_response [dana] =
       (\<lparr>res_statusCode = 500, res_headers = Map.empty,
         res_sent = Some ''Internal server error''\<rparr>,
        [FilterCall [(''email'', JStr ''dana@example.com'')],
         UpdateCall ''u1'' [(''subscription_type'', JStr ''premium'')]],
        [dana])
   \<and> res_statusCode (fst (morning_handler int_runtime readonly_User dana_post fresh_response [dana]))
       \<noteq> 200"
  by (simp add: morning_handler_def post_try_def dana_post_def int_runtime_def dana_payload_def
        readonly_User_def table_User_def matches_def dana_def fresh_response_def status_def
        send_def)

text \<open>
  Claim C10, as amended. For a POST request to the simpler handler: when \<open>payer.email\<close>
  is absent or falsy (a missing or null body, a body without a payer, an empty
  string, \<open>null\<close>, \<open>false\<close>, zero) the answer is 200 with the text
  \<open>Webhook received for unknown\<close>; when it is truthy and has a string conversion the
  answer is 200 with \<open>Webhook received for\<close> followed by that conversion, which for a
  non-empty string is the string itself.
\<close>

theorem webhook_post_reply:
  assumes "req_method req = ''POST''"
      and "email = opt_chain (opt_chain (req_body req) ''payer'') ''email''"
  shows "(\<not> truthy rt email \<longrightarrow>
            webhook_handler rt req res =
              Inr (res\<lparr>res_statusCode := 200,
                     res_sent := Some ''Webhook received for unknown''\<rparr>))
       \<and> (\<forall>text. truthy rt email \<and> template rt email = Inr text \<longrightarrow>
            webhook_handler rt req res =
              Inr (res\<lparr>res_statusCode := 200,
                     res_sent := Some (''Webhook received for '' @ text)\<rparr>))
       \<and> (\<forall>address. email = Some (JStr address) \<and> address \<noteq> [] \<longrightarrow>
            webhook_handler rt req res =
              Inr (res\<lparr>res_statusCode := 200,
                     res_sent := Some (''Webhook received for '' @ address)\<rparr>))"
  using assms
  by (auto simp: webhook_handler_def status_def send_def template_def)

theorem webhook_post_reply_witness:
  "webhook_handler int_runtime dana_post fresh_response =
     Inr \<lparr>res_statusCode = 200, res_headers = Map.empty,
          res_sent = Some ''Webhook received for dana@example.com''\<rparr>
   \<and> webhook_handler int_runtime (dana_post\<lparr>req_body := None\<rparr>) fresh_response =
     Inr \<lparr>res_statusCode = 200, res_headers = Map.empty,
          res_sent = Some ''Webhook received for unknown''\<rparr>
   \<and> webhook_handler int_runtime
       (dana_post\<lparr>req_body := Some (JObj [(''payer'', JObj [(''email'', JArr [JNum 7, JNull])])])\<rparr>)
       fresh_response =
     Inr \<lparr>res_statusCode = 200, res_headers = Map.empty,
          res_sent = Some ''Webhook received for 7,''\<rparr>"
proof -
  have post: "\<And>b. req_method (dana_post\<lparr>req_body := b\<rparr>) = ''POST''"
    by (simp add: dana_post_def)
  have address:
    "Some (JStr ''dana@example.com'') =
       opt_chain (opt_chain (req_body (dana_post\<lparr>req_body := Some dana_payload\<rparr>)) ''payer'')
         ''email''"
    by (simp add: dana_payload_def)
  have absent: "None = opt_chain (opt_chain (req_body (dana_post\<lparr>req_body := None\<rparr>)) ''payer'') ''email''"
    by simp
  have array:
    "Some (JArr [JNum 7, JNull]) =
       opt_chain (opt_chain (req_body (dana_post\<lparr>req_body :=
          Some (JObj [(''payer'', JObj [(''email'', JArr [JNum 7, JNull])])])\<rparr>)) ''payer'') ''email''"
    by simp
  have seven: "template int_runtime (Some (JArr [JNum 7, JNull])) = Inr ''7,''"
    by (simp add: template_def int_runtime_def)
  have same: "dana_post\<lparr>req_body := Some dana_payload\<rparr> = dana_post"
    by (simp add: dana_post_def)
  from webhook_post_reply [OF post address, of int_runtime fresh_response]
       webhook_post_reply [OF post absent, of int_runtime fresh_response]
       webhook_post_reply [OF post array, of int_runtime fresh_response]
       seven same
  show ?thesis
    by (simp add: fresh_response_def)
qed

text \<open>
  Claim C10 as stated fails: the payload carries a payer email, the empty string, and
  the answer is not \<open>Webhook received for\<close> followed by that email but
  \<open>Webhook received for unknown\<close>.
\<close>

theorem webhook_post_empty_email:
  "opt_chain (opt_chain (Some (JObj [(''payer'', JObj [(''email'', JStr '''' :: int json)])]))
      ''payer'') ''email'' = Some (JStr '''')
   \<and> webhook_handler int_runtime
       (dana_post\<lparr>req_body := Some (JObj [(''payer'', JObj [(''email'', JStr '''')])])\<rparr>)
       fresh_response =
     Inr \<lparr>res_statusCode = 200, res_headers = Map.empty,
          res_sent = Some ''Webhook received for unknown''\<rparr>
   \<and> ''Webhook received for unknown'' \<noteq> ''Webhook received for '' @ ''''"
  by (simp add: webhook_handler_def dana_post_def fresh_response_def template_def status_def
        send_def)

text \<open>
  Beyond the amended claim: an email that is an object with an own property
  \<open>toString\<close> has no string conversion, and the handler's promise rejects.
\<close>

lemma webhook_post_rejects:
  "webhook_handler int_runtime
     (dana_post\<lparr>req_body :=
        Some (JObj [(''payer'', JObj [(''email'', JObj [(''toString'', JNum 1)])])])\<rparr>)
     fresh_response = Inl TypeError"
  by (simp add: webhook_handler_def dana_post_def template_def)

section \<open>The declared types\<close>

text \<open>
  Claim C3. The claim lists \<open>autoInitAuth\<close> among the fields of the configuration
  type, as the documentation of \<open>createClient\<close> does. The declared \<open>ClientConfig\<close> has
  the other five fields and no \<open>autoInitAuth\<close>: a property access of that name has no
  type, and the documented literal with \<open>appId\<close> and \<open>autoInitAuth\<close> is not accepted
  where a \<open>ClientConfig\<close> is expected, while the literal with \<open>appId\<close> alone is.
\<close>

theorem ClientConfig_without_autoInitAuth:
  "member_names ClientConfig = [''serverUrl'', ''appId'', ''env'', ''token'', ''requiresAuth'']
   \<and> property_type ClientConfig ''autoInitAuth'' = None
   \<and> accepts_literal ClientConfig [''appId'']
   \<and> \<not> accepts_literal ClientConfig [''appId'', ''autoInitAuth'']"
  by (simp add: member_names_def property_type_def find_member_def accepts_literal_def
        ClientConfig_def)

section \<open>The client core\<close>




text \<open>
  Claim C5. Whatever the transport does, a failure of a client operation is a
  Base44Error, never the configuration error or a raw transport error; when the
  transport gives no response, the error has no status and carries the cause as
  \<open>originalError\<close>. The declared class has the field \<open>message\<close> and the optional fields
  status, code, data and originalError.
\<close>

theorem failures_are_Base44Error:
  "(\<forall>f. perform transport c op = Inl f \<longrightarrow> (\<exists>e. f = Base44Error e))
   \<and> (\<forall>d cause.
        transport \<lparr>hr_serverUrl = cfg_serverUrl (client_config c), hr_descriptor = d,
                   hr_authorization = client_token c\<rparr> = NoResponse cause \<longrightarrow>
        (\<exists>e. execute transport c d = Inl (Base44Error e) \<and> err_status e = None \<and>
             err_originalError e = Some cause))
   \<and> member_names Base44Error_class = [''message'', ''status'', ''code'', ''data'', ''originalError'']
   \<and> map member_name (filter required (members Base44Error_class)) = [''message'']"
proof (intro conjI allI impI)
  fix f
  assume failed: "perform transport c op = Inl f"
  show "\<exists>e. f = Base44Error e"
  proof (cases op)
    case (Entities name eop)
    with failed have "execute transport c (entity_request (cfg_appId (client_config c)) name eop) = Inl f"
      by (auto simp: entities_def map_sum_def split: sum.splits)
    then show ?thesis by (rule execute_failure)
  next
    case (Integrations package endpoint payload)
    with failed obtain d where "execute transport c d = Inl f"
      by (auto simp: integrations_def map_sum_def split: sum.splits)
    then show ?thesis by (rule execute_failure)
  next
    case Auth_me
    with failed have "auth_me transport c = Inl f"
      by (auto simp: map_sum_def split: sum.splits)
    then show ?thesis by (rule auth_me_failure)
  next
    case (Auth_updateMe data)
    with failed obtain d where "execute transport c d = Inl f"
      by (auto simp: auth_updateMe_def map_sum_def split: sum.splits)
    then show ?thesis by (rule execute_failure)
  next
    case Auth_isAuthenticated
    with failed show ?thesis
      by (auto simp: auth_isAuthenticated_def map_sum_def split: sum.splits option.splits)
  qed
next
  fix d cause
  assume "transport \<lparr>hr_serverUrl = cfg_serverUrl (client_config c), hr_descriptor = d,
                     hr_authorization = client_token c\<rparr> = NoResponse cause"
  then show "\<exists>e. execute transport c d = Inl (Base44Error e) \<and> err_status e = None \<and>
                err_originalError e = Some cause"
    by (simp add: execute_def)
next
  show "member_names Base44Error_class = [''message'', ''status'', ''code'', ''data'', ''originalError'']"
    by (simp add: member_names_def Base44Error_class_def)
next
  show "map member_name (filter required (members Base44Error_class)) = [''message'']"
    by (simp add: Base44Error_class_def)
qed

theorem failures_are_Base44Error_witness:
  "perform offline todo_client (Entities ''Todo'' (Op_get ''42'')) =
     Inl (Base44Error \<lparr>err_message = ''Network Error'', err_status = None, err_code = None,
            err_data = None, err_originalError = Some (NetworkUnreachable ''Network Error'')\<rparr>)
   \<and> perform gone todo_client (Entities ''Todo'' (Op_get ''42'')) =
     Inl (Base44Error \<lparr>err_message = ''Not found'', err_status = Some 404,
            err_code = Some ''NOT_FOUND'', err_data = None, err_originalError = None\<rparr>)"
proof -
  have no_network:
    "perform offline todo_client (Entities ''Todo'' (Op_get ''42'')) =
       Inl (Base44Error \<lparr>err_message = ''Network Error'', err_status = None, err_code = None,
              err_data = None, err_originalError = Some (NetworkUnreachable ''Network Error'')\<rparr>)"
    by (simp add: entities_def execute_def offline_def cause_message_def)
  have not_found:
    "perform gone todo_client (Entities ''Todo'' (Op_get ''42'')) =
       Inl (Base44Error \<lparr>err_message = ''Not found'', err_status = Some 404,
              err_code = Some ''NOT_FOUND'', err_data = None, err_originalError = None\<rparr>)"
    by (simp add: entities_def execute_def gone_def body_message_def body_code_def)
  from failures_are_Base44Error [of offline todo_client "Entities ''Todo'' (Op_get ''42'')"]
       failures_are_Base44Error [of gone todo_client "Entities ''Todo'' (Op_get ''42'')"]
       no_network not_found
  show ?thesis by simp
qed

text \<open>
  Claim C6. \<open>createClient\<close> on a configuration without \<open>appId\<close> fails with a
  configuration error and has sent no request; with \<open>appId\<close> present it returns a
  client for that application, again without a request. The declared result type is
  \<open>Base44Client\<close>, whose members are entities, integrations, auth, setToken and
  getConfig.
\<close>

theorem createClient_validates_appId:
  "(in_appId config = None \<longrightarrow>
      (\<exists>text. createClient config = (Inl (ConfigurationError text), [])))
   \<and> (\<forall>app. in_appId config = Some app \<longrightarrow>
        (\<exists>c. createClient config = (Inr c, []) \<and> cfg_appId (getConfig c) = app))
   \<and> member_type createClient_signature = TNamed ''Base44Client''
   \<and> member_names Base44Client =
       [''entities'', ''integrations'', ''auth'', ''setToken'', ''getConfig'']"
  by (simp add: createClient_def getConfig_def createClient_signature_def member_names_def
        Base44Client_def)

theorem createClient_validates_appId_witness:
  "in_appId empty_config = None
   \<and> createClient empty_config = (Inl (ConfigurationError ''appId is required''), [])
   \<and> in_appId todo_config = Some (AppIdString ''todo-app'')
   \<and> createClient todo_config = (Inr todo_client, [])
   \<and> cfg_appId (getConfig todo_client) = AppIdString ''todo-app''"
  using createClient_validates_appId [of empty_config]
    createClient_validates_appId [of todo_config]
  by (simp add: createClient_def empty_config_def todo_config_def todo_client_def getConfig_def)

text \<open>
  Claim C7. \<open>isAuthenticated\<close> never rejects: for every transport and every client
  state it resolves with a boolean, and the boolean is true exactly when a token is
  set and the identity probe \<open>me\<close> succeeds. Its declared result is a promise of a
  boolean.
\<close>

theorem isAuthenticated_never_rejects:
  "(\<exists>b. auth_isAuthenticated transport c = Inr b \<and>
         b = (client_token c \<noteq> None \<and> (\<exists>identity. auth_me transport c = Inr identity)))
   \<and> resolves_with AuthModule ''isAuthenticated'' = Some TBoolean"
  by (auto simp: auth_isAuthenticated_def resolves_with_def find_member_def AuthModule_def
           split: option.splits sum.splits)

text \<open>With a token set and no network, and with a server that answers 404, the result is false.\<close>

theorem isAuthenticated_never_rejects_witness:
  "client_token todo_client = Some ''t0ken''
   \<and> auth_isAuthenticated offline todo_client = Inr False
   \<and> auth_isAuthenticated gone todo_client = Inr False
   \<and> auth_isAuthenticated offline (auth_logout todo_client) = Inr False"
  using isAuthenticated_never_rejects [of offline todo_client]
    isAuthenticated_never_rejects [of gone todo_client]
  by (simp add: auth_isAuthenticated_def auth_me_def execute_def offline_def gone_def
        todo_client_def auth_logout_def)

end
